theory Spec2Isabelle
  imports Main
begin

section \<open>JavaScript strings\<close>

text \<open>
  A string of the program is modelled as a \<^typ>\<open>string\<close>: a list of 8-bit characters,
  each read as the code point of the same number (U+0000 to U+00FF). On that range
  \<^verbatim>\<open>toLowerCase\<close> moves the letters A-Z and the Latin-1 capitals (U+00C0 to U+00DE
  without the multiplication sign U+00D7) by 32 and leaves every other character alone, and
  the regular expression class \<^verbatim>\<open>\s\<close> holds tab, line feed, vertical tab, form feed,
  carriage return, space and the no-break space U+00A0.
\<close>

definition toLowerChar :: "char \<Rightarrow> char" where
  "toLowerChar c =
     (let n = (of_char c :: nat)
      in if (65 \<le> n \<and> n \<le> 90) \<or> (192 \<le> n \<and> n \<le> 222 \<and> n \<noteq> 215)
         then char_of (n + 32) else c)"

definition toLowerCase :: "string \<Rightarrow> string" where
  "toLowerCase s = map toLowerChar s"

definition isWhitespace :: "char \<Rightarrow> bool" where
  "isWhitespace c =
     (let n = (of_char c :: nat)
      in n = 9 \<or> n = 10 \<or> n = 11 \<or> n = 12 \<or> n = 13 \<or> n = 32 \<or> n = 160)"

text \<open>\<^verbatim>\<open>s.startsWith(p)\<close> and \<^verbatim>\<open>s.includes(sub)\<close>.\<close>

definition startsWith :: "string \<Rightarrow> string \<Rightarrow> bool" where
  "startsWith s p = (take (length p) s = p)"

fun includes_str :: "string \<Rightarrow> string \<Rightarrow> bool" where
  "includes_str [] sub = (sub = [])"
| "includes_str (c # cs) sub = (startsWith (c # cs) sub \<or> includes_str cs sub)"

section \<open>Directory names: \<^verbatim>\<open>Downloader.sanitizePathName\<close>\<close>

text \<open>
  The character class \<^verbatim>\<open>[/\\?%*:|"<>]\<close> of the first replacement: slash, backslash,
  question mark, percent, asterisk, colon, bar, double quote, less-than, greater-than.
\<close>

definition isInvalidFileChar :: "char \<Rightarrow> bool" where
  "isInvalidFileChar c =
     (let n = (of_char c :: nat)
      in n = 47 \<or> n = 92 \<or> n = 63 \<or> n = 37 \<or> n = 42 \<or> n = 58 \<or> n = 124
         \<or> n = 34 \<or> n = 60 \<or> n = 62)"

text \<open>\<^verbatim>\<open>.replace(/[/\\?%*:|"<>]/g, '-')\<close>: every character of the class becomes a hyphen.\<close>

definition replaceInvalidFileChars :: "string \<Rightarrow> string" where
  "replaceInvalidFileChars s = map (\<lambda>c. if isInvalidFileChar c then CHR ''-'' else c) s"

text \<open>
  \<^verbatim>\<open>.replace(/\s+/g, '-')\<close>: every maximal run of whitespace becomes one hyphen. The
  match is greedy, so after a whitespace character the rest of its run is dropped.
\<close>

function replaceWhitespaceRuns :: "string \<Rightarrow> string" where
  "replaceWhitespaceRuns [] = []"
| "replaceWhitespaceRuns (c # cs) =
     (if isWhitespace c then CHR ''-'' # replaceWhitespaceRuns (dropWhile isWhitespace cs)
      else c # replaceWhitespaceRuns cs)"
  by pat_completeness auto
termination
  by (relation "measure length") (auto simp: length_dropWhile_le less_Suc_eq_le)

definition sanitizePathName :: "string \<Rightarrow> string" where
  "sanitizePathName name = toLowerCase (replaceWhitespaceRuns (replaceInvalidFileChars name))"

section \<open>The resolver: \<^verbatim>\<open>Scraper.isValidVideoUrl\<close> and \<^verbatim>\<open>Scraper.determineUrlType\<close>\<close>

text \<open>\<^verbatim>\<open>s.split(sep)\<close> for a separator of one character; the empty string splits to \<^verbatim>\<open>['']\<close>.\<close>

fun split_chr :: "char \<Rightarrow> string \<Rightarrow> string list" where
  "split_chr sep [] = [[]]"
| "split_chr sep (c # cs) =
     (if c = sep then [] # split_chr sep cs
      else (case split_chr sep cs of
              w # ws \<Rightarrow> (c # w) # ws
            | [] \<Rightarrow> [[c]]))"

text \<open>\<^verbatim>\<open>url.split('?')[1] || ''\<close>: the text between the first and the second question mark.\<close>

definition queryText :: "string \<Rightarrow> string" where
  "queryText url = (case split_chr CHR ''?'' url of _ # q # _ \<Rightarrow> q | _ \<Rightarrow> [])"

text \<open>
  \<^verbatim>\<open>new URLSearchParams(init).has(name)\<close>, after the URL standard's parser for
  \<^verbatim>\<open>application/x-www-form-urlencoded\<close>: a leading question mark is dropped, the text is
  split at every ampersand, empty pieces are skipped, the name of a piece is what stands
  before its first equals sign, with every plus sign turned into a space and every
  percent escape decoded. The names asked for are ASCII, so the decoded bytes are compared
  as they are.
\<close>

definition isHexDigit :: "char \<Rightarrow> bool" where
  "isHexDigit c =
     (let n = (of_char c :: nat)
      in (48 \<le> n \<and> n \<le> 57) \<or> (65 \<le> n \<and> n \<le> 70) \<or> (97 \<le> n \<and> n \<le> 102))"

definition hexValue :: "char \<Rightarrow> nat" where
  "hexValue c =
     (let n = (of_char c :: nat)
      in if n \<le> 57 then n - 48 else if n \<le> 70 then n - 55 else n - 87)"

fun percentDecode :: "string \<Rightarrow> string" where
  "percentDecode (c # h # l # cs) =
     (if c = CHR ''%'' \<and> isHexDigit h \<and> isHexDigit l
      then char_of (16 * hexValue h + hexValue l) # percentDecode cs
      else c # percentDecode (h # l # cs))"
| "percentDecode cs = cs"

definition paramName :: "string \<Rightarrow> string" where
  "paramName piece =
     percentDecode (map (\<lambda>c. if c = CHR ''+'' then CHR '' '' else c)
                        (takeWhile (\<lambda>c. c \<noteq> CHR ''='') piece))"

definition paramNames :: "string \<Rightarrow> string list" where
  "paramNames init =
     (let query = (case init of c # cs \<Rightarrow> if c = CHR ''?'' then cs else init | [] \<Rightarrow> init)
      in map paramName (filter (\<lambda>piece. piece \<noteq> []) (split_chr CHR ''&'' query)))"

definition searchParamsHas :: "string \<Rightarrow> string \<Rightarrow> bool" where
  "searchParamsHas init name = (name \<in> set (paramNames init))"

definition validExtensions :: "string list" where
  "validExtensions = [''.mp4'', ''.m3u8'', ''.flv'', ''.webm'', ''.mov'', ''.mkv'']"

definition hasValidExtension :: "string \<Rightarrow> bool" where
  "hasValidExtension url = list_ex (\<lambda>ext. includes_str (toLowerCase url) ext) validExtensions"

definition hasVideoParams :: "string \<Rightarrow> bool" where
  "hasVideoParams url =
     (let urlParams = queryText url
      in searchParamsHas urlParams ''file'' \<or> searchParamsHas urlParams ''source''
         \<or> searchParamsHas urlParams ''video'')"

text \<open>
  \<^verbatim>\<open>isValidVideoUrl\<close>. Its last check, \<^verbatim>\<open>new URL(url)\<close>, is the URL parser of the
  platform, which is no part of the repository: \<open>urlParses\<close> says of a string whether that
  constructor returns rather than throws.
\<close>

definition isValidVideoUrl :: "(string \<Rightarrow> bool) \<Rightarrow> string \<Rightarrow> bool" where
  "isValidVideoUrl urlParses url =
     (if url = [] then False
      else if length url < 10 then False
      else if \<not> startsWith url ''http://'' \<and> \<not> startsWith url ''https://'' then False
      else if \<not> hasValidExtension url \<and> \<not> hasVideoParams url then False
      else urlParses url)"

datatype urlType = SeriesUrl | EpisodeUrl

definition determineUrlType :: "string \<Rightarrow> urlType \<times> string" where
  "determineUrlType url =
     (let normalizedUrl = toLowerCase url
      in if includes_str normalizedUrl ''/anime/''
            \<or> includes_str normalizedUrl ''/category/''
            \<or> includes_str normalizedUrl ''/series/''
            \<or> includes_str normalizedUrl ''/cartoon/''
            \<or> (\<not> includes_str normalizedUrl ''/episode''
                \<and> \<not> includes_str normalizedUrl ''/watch/''
                \<and> \<not> includes_str normalizedUrl ''/video/'')
         then (SeriesUrl, url)
         else (EpisodeUrl, url))"

section \<open>The registry: \<^verbatim>\<open>shared/schema.ts\<close> and \<^verbatim>\<open>MemStorage\<close>\<close>

text \<open>
  A number of the program: an integer, or one of the two values \<^verbatim>\<open>Infinity\<close> and
  \<^verbatim>\<open>NaN\<close> that a division by 0 gives.
\<close>

datatype jsnum = Num int | Infinity | NaN

text \<open>Rows of the three tables. A nullable column is an option; a timestamp is a number.\<close>

record Series =
  series_id :: nat
  series_title :: string
  description :: "string option"
  totalEpisodes :: "nat option"
  imageUrl :: "string option"
  series_sourceUrl :: string
  series_createdAt :: "nat option"

record Episode =
  episode_id :: nat
  seriesId :: nat
  episode_title :: string
  episodeNumber :: "nat option"
  season :: "nat option"
  duration :: "string option"
  sourceUrl :: string
  downloadUrl :: "string option"
  episode_createdAt :: "nat option"

record Download =
  download_id :: nat
  episodeId :: nat
  status :: string
  progress :: "jsnum option"
  totalSize :: "nat option"
  downloadedSize :: "nat option"
  speed :: "int option"
  filePath :: "string option"
  error :: "string option"
  startedAt :: "nat option"
  completedAt :: "nat option"
  createdAt :: "nat option"

text \<open>
  \<^verbatim>\<open>InsertDownload\<close>: the download row without \<^verbatim>\<open>id\<close> and \<^verbatim>\<open>createdAt\<close>; every column
  but \<^verbatim>\<open>episodeId\<close> may be left out or null.
\<close>

record InsertDownload =
  ins_episodeId :: nat
  ins_status :: "string option"
  ins_progress :: "jsnum option"
  ins_totalSize :: "nat option"
  ins_downloadedSize :: "nat option"
  ins_speed :: "int option"
  ins_filePath :: "string option"
  ins_error :: "string option"
  ins_startedAt :: "nat option"
  ins_completedAt :: "nat option"

text \<open>
  The runtime handle kept in \<^verbatim>\<open>activeDownloads\<close>. An \<^verbatim>\<open>AbortController\<close> and a
  \<^verbatim>\<open>fs.WriteStream\<close> are objects shared between the map and the running transfer, so the
  handle holds their identities and their state lives in the world below.
\<close>

record Handle =
  abortController :: nat
  resumePosition :: nat
  stream :: "nat option"

text \<open>
  A write stream is made at once and opens its file later, when the event loop turns:
  until then nothing on disk has changed. The flag \<^verbatim>\<open>'a'\<close> is \<open>stream_append\<close>, the flag
  \<^verbatim>\<open>'w'\<close> its negation.
\<close>

record WriteStream =
  stream_path :: string
  stream_append :: bool
  stream_opened :: bool
  stream_closed :: bool

text \<open>What is at a path of the file system: a regular file or a directory, with its size.\<close>

datatype FsEntry = RegularFile nat | Directory nat

text \<open>A thrown error: its \<^verbatim>\<open>name\<close> and its \<^verbatim>\<open>message\<close>.\<close>

datatype Thrown = Thrown string string

text \<open>
  Everything the server mutates: the maps of \<^verbatim>\<open>MemStorage\<close> with their counters, the
  module-level map \<^verbatim>\<open>activeDownloads\<close>, the abort controllers and write streams created
  so far, and the file system. \<open>unwritable\<close> holds the paths at which the process may
  neither create nor remove nor open for writing (a protected file, a directory without
  write permission); \<open>directorySize\<close> is the size the platform reports for a directory it
  has just made.
\<close>

record World =
  seriesMap :: "nat \<rightharpoonup> Series"
  episodesMap :: "nat \<rightharpoonup> Episode"
  downloadsMap :: "nat \<rightharpoonup> Download"
  episodeCurrentId :: nat
  downloadCurrentId :: nat
  activeDownloads :: "nat \<rightharpoonup> Handle"
  abortControllers :: nat
  aborted :: "nat set"
  streams :: "nat \<rightharpoonup> WriteStream"
  streamCount :: nat
  files :: "string \<rightharpoonup> FsEntry"
  unwritable :: "string set"
  directorySize :: nat

text \<open>A string in a condition: null, undefined and the empty string are false.\<close>

definition truthy :: "string option \<Rightarrow> bool" where
  "truthy x = (case x of None \<Rightarrow> False | Some s \<Rightarrow> s \<noteq> [])"

definition getSeries :: "World \<Rightarrow> nat \<Rightarrow> Series option" where
  "getSeries w k = seriesMap w k"

definition getEpisode :: "World \<Rightarrow> nat \<Rightarrow> Episode option" where
  "getEpisode w k = episodesMap w k"

text \<open>
  \<^verbatim>\<open>getEpisodesBySeriesId\<close> filters the values of the map in insertion order. Keys are
  handed out by the counter, starting at 1, so that is the order of the keys.
\<close>

definition getEpisodesBySeriesId :: "World \<Rightarrow> nat \<Rightarrow> Episode list" where
  "getEpisodesBySeriesId w sid =
     filter (\<lambda>episode. seriesId episode = sid)
            (List.map_filter (episodesMap w) [1 ..< episodeCurrentId w])"

text \<open>
  \<^verbatim>\<open>updateEpisode(id, data)\<close> and \<^verbatim>\<open>updateDownload(id, data)\<close> store
  \<^verbatim>\<open>{ ...row, ...data }\<close>. The partial row \<^verbatim>\<open>data\<close> is given as the record update it
  stands for.
\<close>

definition updateEpisode ::
  "World \<Rightarrow> nat \<Rightarrow> (Episode \<Rightarrow> Episode) \<Rightarrow> Episode option \<times> World" where
  "updateEpisode w k data =
     (case episodesMap w k of
        None \<Rightarrow> (None, w)
      | Some episode \<Rightarrow>
          (let updatedEpisode = data episode
           in (Some updatedEpisode, w\<lparr>episodesMap := (episodesMap w)(k \<mapsto> updatedEpisode)\<rparr>)))"

definition getDownload :: "World \<Rightarrow> nat \<Rightarrow> Download option" where
  "getDownload w k = downloadsMap w k"

definition createDownload :: "World \<Rightarrow> InsertDownload \<Rightarrow> nat \<Rightarrow> Download \<times> World" where
  "createDownload w insertDownload now =
     (let newId = downloadCurrentId w;
          download = \<lparr>download_id = newId,
                      episodeId = ins_episodeId insertDownload,
                      status = ''queued'',
                      progress = Some (Num 0),
                      totalSize = None,
                      downloadedSize = Some 0,
                      speed = None,
                      filePath = (if truthy (ins_filePath insertDownload)
                                  then ins_filePath insertDownload else None),
                      error = None,
                      startedAt = None,
                      completedAt = None,
                      createdAt = Some now\<rparr>
      in (download, w\<lparr>downloadCurrentId := newId + 1,
                       downloadsMap := (downloadsMap w)(newId \<mapsto> download)\<rparr>))"

definition updateDownload ::
  "World \<Rightarrow> nat \<Rightarrow> (Download \<Rightarrow> Download) \<Rightarrow> Download option \<times> World" where
  "updateDownload w k data =
     (case downloadsMap w k of
        None \<Rightarrow> (None, w)
      | Some download \<Rightarrow>
          (let updatedDownload = data download
           in (Some updatedDownload,
               w\<lparr>downloadsMap := (downloadsMap w)(k \<mapsto> updatedDownload)\<rparr>)))"

section \<open>Files, streams, errors and abort controllers\<close>

text \<open>An error in a template literal, \<^verbatim>\<open>`${error}`\<close>: name, colon, message.\<close>

definition errorText :: "Thrown \<Rightarrow> string" where
  "errorText e =
     (case e of
        Thrown name message \<Rightarrow>
          if message = [] then name
          else if name = [] then message
          else name @ '': '' @ message)"

text \<open>The error of a failed system call, as the platform words it.\<close>

definition systemError :: "string \<Rightarrow> string \<Rightarrow> string \<Rightarrow> string \<Rightarrow> Thrown" where
  "systemError code reason syscall path =
     Thrown ''Error''
       (code @ '': '' @ reason @ '', '' @ syscall @ '' '' @ [CHR 0x27] @ path @ [CHR 0x27])"

definition existsSync :: "World \<Rightarrow> string \<Rightarrow> bool" where
  "existsSync w path = (files w path \<noteq> None)"

text \<open>
  \<^verbatim>\<open>fs.statSync(path).size\<close>. The engine asks for it only after \<^verbatim>\<open>existsSync\<close> has
  said that the path is there.
\<close>

definition statSize :: "World \<Rightarrow> string \<Rightarrow> nat" where
  "statSize w path =
     (case files w path of
        Some (RegularFile n) \<Rightarrow> n
      | Some (Directory n) \<Rightarrow> n
      | None \<Rightarrow> 0)"

text \<open>
  \<^verbatim>\<open>fs.unlinkSync(path)\<close> removes a regular file. It throws when nothing is at the path,
  when a directory is, and when the process may not remove the file.
\<close>

definition unlinkSync :: "World \<Rightarrow> string \<Rightarrow> Thrown + World" where
  "unlinkSync w path =
     (case files w path of
        None \<Rightarrow> Inl (systemError ''ENOENT'' ''no such file or directory'' ''unlink'' path)
      | Some (Directory n) \<Rightarrow>
          Inl (systemError ''EISDIR'' ''illegal operation on a directory'' ''unlink'' path)
      | Some (RegularFile n) \<Rightarrow>
          if path \<in> unwritable w
          then Inl (systemError ''EACCES'' ''permission denied'' ''unlink'' path)
          else Inr (w\<lparr>files := (files w)(path := None)\<rparr>))"

text \<open>
  \<^verbatim>\<open>fs.mkdirSync(path, { recursive: true })\<close>: a directory that is there is left alone, a
  regular file in the way and a path that may not be created make it throw.
\<close>

definition mkdirSync :: "World \<Rightarrow> string \<Rightarrow> Thrown + World" where
  "mkdirSync w path =
     (case files w path of
        Some (Directory n) \<Rightarrow> Inr w
      | Some (RegularFile n) \<Rightarrow> Inl (systemError ''EEXIST'' ''file already exists'' ''mkdir'' path)
      | None \<Rightarrow>
          if path \<in> unwritable w
          then Inl (systemError ''EACCES'' ''permission denied'' ''mkdir'' path)
          else Inr (w\<lparr>files := (files w)(path \<mapsto> Directory (directorySize w))\<rparr>))"

definition ensureDirectoryExists :: "World \<Rightarrow> string \<Rightarrow> Thrown + World" where
  "ensureDirectoryExists w dirPath =
     (if \<not> existsSync w dirPath then mkdirSync w dirPath else Inr w)"

text \<open>
  \<^verbatim>\<open>fs.createWriteStream(path, { flags })\<close> returns the stream; the file is not touched
  yet.
\<close>

definition createWriteStream :: "World \<Rightarrow> string \<Rightarrow> bool \<Rightarrow> nat \<times> World" where
  "createWriteStream w path appending =
     (let fileStream = streamCount w
      in (fileStream,
          w\<lparr>streamCount := fileStream + 1,
            streams := (streams w)(fileStream \<mapsto>
              \<lparr>stream_path = path, stream_append = appending,
               stream_opened = False, stream_closed = False\<rparr>)\<rparr>))"

text \<open>
  The open that a stream performs when the event loop turns, closed in the meantime or
  not. Flag \<^verbatim>\<open>'w'\<close> creates the file or empties it, flag \<^verbatim>\<open>'a'\<close> creates it when it is
  missing and keeps its bytes otherwise. On a directory, and on a path the process may
  not write, the open fails; the stream then emits an \<^verbatim>\<open>error\<close> event that nothing
  listens to, which ends the process: that is \<open>None\<close>.
\<close>

definition streamOpen :: "World \<Rightarrow> nat \<Rightarrow> World option" where
  "streamOpen w fileStream =
     (case streams w fileStream of
        None \<Rightarrow> Some w
      | Some ws \<Rightarrow>
          if stream_opened ws then Some w
          else if stream_path ws \<in> unwritable w then None
          else (case files w (stream_path ws) of
                  Some (Directory n) \<Rightarrow> None
                | Some (RegularFile n) \<Rightarrow>
                    Some (w\<lparr>streams := (streams w)(fileStream \<mapsto> ws\<lparr>stream_opened := True\<rparr>),
                            files := (if stream_append ws then files w
                                      else (files w)(stream_path ws \<mapsto> RegularFile 0))\<rparr>)
                | None \<Rightarrow>
                    Some (w\<lparr>streams := (streams w)(fileStream \<mapsto> ws\<lparr>stream_opened := True\<rparr>),
                            files := (files w)(stream_path ws \<mapsto> RegularFile 0)\<rparr>)))"

text \<open>\<^verbatim>\<open>stream.close()\<close>: the stream takes no further byte.\<close>

definition streamClose :: "World \<Rightarrow> nat \<Rightarrow> World" where
  "streamClose w fileStream =
     (case streams w fileStream of
        None \<Rightarrow> w
      | Some ws \<Rightarrow> w\<lparr>streams := (streams w)(fileStream \<mapsto> ws\<lparr>stream_closed := True\<rparr>)\<rparr>)"

text \<open>\<^verbatim>\<open>abortController.abort()\<close>.\<close>

definition abort :: "World \<Rightarrow> nat \<Rightarrow> World" where
  "abort w controller = w\<lparr>aborted := insert controller (aborted w)\<rparr>"

text \<open>
  What a fetch is rejected with when its signal is aborted while it is pending.
\<close>

definition abortError :: Thrown where
  "abortError = Thrown ''AbortError'' ''The operation was aborted.''"

section \<open>The transfer engine: \<^verbatim>\<open>Downloader\<close>\<close>

text \<open>The decimal digits of a number, as a template literal prints it.\<close>

function showNat :: "nat \<Rightarrow> string" where
  "showNat n = (if n < 10 then [char_of (48 + n)]
                else showNat (n div 10) @ [char_of (48 + n mod 10)])"
  by pat_completeness auto
termination
  by (relation "measure (\<lambda>n. n)") auto

text \<open>
  \<^verbatim>\<open>downloadFile\<close> is asynchronous and runs in two stretches, each a function here: up to
  the \<^verbatim>\<open>fetch\<close> it issues, and from the outcome of that fetch on. The local variables
  that live across the wait are the fields of \<open>Pending\<close>, with the request that was
  issued.
\<close>

record Pending =
  pending_downloadId :: nat
  pending_download :: Download
  pending_filePath :: string
  pending_abortController :: nat
  pending_resumePosition :: nat
  request_url :: "string option"
  request_range :: "nat option"

record Response =
  response_status :: nat
  response_statusText :: string
  content_length :: "nat option"

datatype FetchOutcome = FetchRejected Thrown | Fetched Response

text \<open>The \<^verbatim>\<open>catch\<close> block around the body of \<^verbatim>\<open>downloadFile\<close>.\<close>

definition downloadFile_catch :: "World \<Rightarrow> nat \<Rightarrow> Thrown \<Rightarrow> World" where
  "downloadFile_catch w downloadId err =
     snd (updateDownload (w\<lparr>activeDownloads := (activeDownloads w)(downloadId := None)\<rparr>)
            downloadId (\<lambda>d. d\<lparr>status := ''error'', error := Some (errorText err)\<rparr>))"

text \<open>
  First stretch: read the record, measure the file when the record says \<^verbatim>\<open>paused\<close>,
  register the handle, and issue the fetch, with a \<^verbatim>\<open>Range\<close> header when the resume
  position is positive.
\<close>

definition downloadFile_fetch ::
  "World \<Rightarrow> nat \<Rightarrow> Episode \<Rightarrow> string \<Rightarrow> Pending option \<times> World" where
  "downloadFile_fetch w downloadId episode path =
     (case getDownload w downloadId of
        None \<Rightarrow> (None, downloadFile_catch w downloadId (Thrown ''Error'' ''Download not found''))
      | Some download \<Rightarrow>
          (let controller = abortControllers w;
               position = (if status download = ''paused'' \<and> existsSync w path
                           then statSize w path else 0);
               w1 = w\<lparr>abortControllers := controller + 1,
                      activeDownloads := (activeDownloads w)(downloadId \<mapsto>
                        \<lparr>abortController = controller, resumePosition = position,
                         stream = None\<rparr>)\<rparr>
           in (Some \<lparr>pending_downloadId = downloadId,
                      pending_download = download,
                      pending_filePath = path,
                      pending_abortController = controller,
                      pending_resumePosition = position,
                      request_url = downloadUrl episode,
                      request_range = (if position > 0 then Some position else None)\<rparr>,
               w1)))"

text \<open>
  Second stretch: the fetch has settled. A fetch whose signal was aborted while it was
  pending is rejected with an \<^verbatim>\<open>AbortError\<close>, whatever the server does; otherwise the
  outcome is the one given. A \<^verbatim>\<open>content-length\<close> header that is there holds the number
  of bytes, as HTTP has it; a missing one counts as 0 (\<^verbatim>\<open>parseInt(... || '0', 10)\<close>). The
  test \<^verbatim>\<open>!download.totalSize\<close> holds for null and for 0.

  After the write stream is made and stored in the handle, the function calls
  \<^verbatim>\<open>response.body!.getReader()\<close>. The \<^verbatim>\<open>fetch\<close> of this file is the one of
  \<^verbatim>\<open>node-fetch\<close>, whose response body is a stream of the platform without such a
  method: the call throws a \<^verbatim>\<open>TypeError\<close>, and the \<^verbatim>\<open>catch\<close> block runs. The chain of
  reads below that call, with \<^verbatim>\<open>processChunk\<close>, is never entered.
\<close>

definition downloadFile_response :: "World \<Rightarrow> Pending \<Rightarrow> FetchOutcome \<Rightarrow> World" where
  "downloadFile_response w p outcome =
     (case (if pending_abortController p \<in> aborted w then FetchRejected abortError
            else outcome) of
        FetchRejected err \<Rightarrow> downloadFile_catch w (pending_downloadId p) err
      | Fetched response \<Rightarrow>
          if \<not> (200 \<le> response_status response \<and> response_status response \<le> 299)
             \<and> response_status response \<noteq> 206
          then downloadFile_catch w (pending_downloadId p)
                 (Thrown ''Error''
                    (''Failed to download: '' @ showNat (response_status response)
                     @ '' '' @ response_statusText response))
          else
            (let contentLength = (case content_length response of Some n \<Rightarrow> n | None \<Rightarrow> 0);
                 size_total = pending_resumePosition p + contentLength;
                 w1 = (if totalSize (pending_download p) = None
                          \<or> totalSize (pending_download p) = Some 0
                       then snd (updateDownload w (pending_downloadId p)
                                   (\<lambda>d. d\<lparr>totalSize := Some size_total\<rparr>))
                       else w);
                 (fileStream, w2) = createWriteStream w1 (pending_filePath p)
                                      (pending_resumePosition p > 0);
                 w3 = w2\<lparr>activeDownloads := (activeDownloads w2)(pending_downloadId p \<mapsto>
                          \<lparr>abortController = pending_abortController p,
                           resumePosition = pending_resumePosition p,
                           stream = Some fileStream\<rparr>)\<rparr>
             in downloadFile_catch w3 (pending_downloadId p)
                  (Thrown ''TypeError'' ''response.body.getReader is not a function'')))"

text \<open>
  \<^verbatim>\<open>startDownload\<close>. \<open>pathJoin\<close> is \<^verbatim>\<open>path.join\<close> of the platform on two segments and
  \<open>downloadsDirectory\<close> the field of that name. The function returns once
  \<^verbatim>\<open>downloadFile\<close> is under way; the fetch that call issues is returned by the model.
\<close>

definition startDownload_catch :: "World \<Rightarrow> nat \<Rightarrow> Thrown \<Rightarrow> Pending option \<times> World" where
  "startDownload_catch w downloadId err =
     (None, snd (updateDownload w downloadId
                   (\<lambda>d. d\<lparr>status := ''error'', error := Some (errorText err)\<rparr>)))"

definition startDownload ::
  "(string \<Rightarrow> string \<Rightarrow> string) \<Rightarrow> string \<Rightarrow> World \<Rightarrow> nat \<Rightarrow> nat
     \<Rightarrow> Pending option \<times> World" where
  "startDownload pathJoin downloadsDirectory w downloadId now =
     (case getDownload w downloadId of
        None \<Rightarrow>
          startDownload_catch w downloadId
            (Thrown ''Error'' (''Download with ID '' @ showNat downloadId @ '' not found''))
      | Some download \<Rightarrow>
          (case getEpisode w (episodeId download) of
             None \<Rightarrow>
               startDownload_catch w downloadId
                 (Thrown ''Error''
                    (''Episode with ID '' @ showNat (episodeId download) @ '' not found''))
           | Some episode \<Rightarrow>
               if \<not> truthy (downloadUrl episode)
               then startDownload_catch w downloadId
                      (Thrown ''Error''
                         (''No download URL for episode with ID ''
                          @ showNat (episodeId download)))
               else
                 (case getSeries w (seriesId episode) of
                    None \<Rightarrow>
                      startDownload_catch w downloadId
                        (Thrown ''Error''
                           (''Series with ID '' @ showNat (seriesId episode) @ '' not found''))
                  | Some series \<Rightarrow>
                      (let seriesDir = pathJoin downloadsDirectory
                                         (sanitizePathName (series_title series))
                       in case ensureDirectoryExists w seriesDir of
                            Inl err \<Rightarrow> startDownload_catch w downloadId err
                          | Inr w1 \<Rightarrow>
                              (let seasonDir =
                                     pathJoin seriesDir
                                       (''season-'' @ showNat
                                          (case season episode of
                                             None \<Rightarrow> 1
                                           | Some n \<Rightarrow> if n = 0 then 1 else n))
                               in case ensureDirectoryExists w1 seasonDir of
                                    Inl err \<Rightarrow> startDownload_catch w1 downloadId err
                                  | Inr w2 \<Rightarrow>
                                      (let fileName =
                                             ''episode-'' @ showNat
                                               (case episodeNumber episode of
                                                  None \<Rightarrow> 0
                                                | Some n \<Rightarrow> n)
                                             @ ''.mp4'';
                                           path = pathJoin seasonDir fileName;
                                           w3 = snd (updateDownload w2 downloadId
                                                  (\<lambda>d. d\<lparr>filePath := Some path,
                                                          status := ''downloading'',
                                                          startedAt := Some now\<rparr>))
                                       in downloadFile_fetch w3 downloadId episode path))))))"

definition pauseDownload :: "World \<Rightarrow> nat \<Rightarrow> bool \<times> World" where
  "pauseDownload w downloadId =
     (case activeDownloads w downloadId of
        None \<Rightarrow> (False, w)
      | Some activeDownload \<Rightarrow>
          (let w1 = abort w (abortController activeDownload);
               w2 = (case stream activeDownload of
                       Some fileStream \<Rightarrow> streamClose w1 fileStream
                     | None \<Rightarrow> w1);
               w3 = snd (updateDownload w2 downloadId (\<lambda>d. d\<lparr>status := ''paused''\<rparr>))
           in (True, w3)))"

text \<open>
  \<^verbatim>\<open>resumeDownload\<close> returns its verdict once \<^verbatim>\<open>downloadFile\<close> is under way; the fetch
  that call issues is returned with it.
\<close>

definition resumeDownload :: "World \<Rightarrow> nat \<Rightarrow> bool \<times> Pending option \<times> World" where
  "resumeDownload w downloadId =
     (case getDownload w downloadId of
        None \<Rightarrow> (False, None, w)
      | Some download \<Rightarrow>
          if status download \<noteq> ''paused'' then (False, None, w)
          else (case getEpisode w (episodeId download) of
                  None \<Rightarrow> (False, None, w)
                | Some episode \<Rightarrow>
                    if \<not> truthy (downloadUrl episode) then (False, None, w)
                    else (let w1 = snd (updateDownload w downloadId
                                          (\<lambda>d. d\<lparr>status := ''downloading''\<rparr>));
                              (pending, w2) = downloadFile_fetch w1 downloadId episode
                                                (case filePath download of
                                                   Some path \<Rightarrow> path
                                                 | None \<Rightarrow> [])
                          in (True, pending, w2))))"

text \<open>
  \<^verbatim>\<open>cancelDownload\<close> has no \<^verbatim>\<open>try\<close>: when \<^verbatim>\<open>unlinkSync\<close> throws, the call is rejected
  with that error after the handle is gone and before the record is written.
\<close>

definition cancelDownload :: "World \<Rightarrow> nat \<Rightarrow> (Thrown + bool) \<times> World" where
  "cancelDownload w downloadId =
     (let w1 = (case activeDownloads w downloadId of
                  None \<Rightarrow> w
                | Some activeDownload \<Rightarrow>
                    (let wa = abort w (abortController activeDownload);
                         wb = (case stream activeDownload of
                                 Some fileStream \<Rightarrow> streamClose wa fileStream
                               | None \<Rightarrow> wa)
                     in wb\<lparr>activeDownloads := (activeDownloads wb)(downloadId := None)\<rparr>));
          unlinked = (case getDownload w1 downloadId of
                        None \<Rightarrow> Inr w1
                      | Some download \<Rightarrow>
                          (case filePath download of
                             None \<Rightarrow> Inr w1
                           | Some path \<Rightarrow>
                               if path \<noteq> [] \<and> existsSync w1 path
                               then unlinkSync w1 path else Inr w1))
      in case unlinked of
           Inl err \<Rightarrow> (Inl err, w1)
         | Inr w2 \<Rightarrow>
             (Inr True,
              snd (updateDownload w2 downloadId
                     (\<lambda>d. d\<lparr>status := ''cancelled'', progress := Some (Num 0),
                             downloadedSize := Some 0\<rparr>))))"


section \<open>The batch download of a series: \<^verbatim>\<open>POST /api/downloads\<close>\<close>

text \<open>
  What \<^verbatim>\<open>getSourceHtml\<close> followed by \<^verbatim>\<open>parseEpisodePage\<close> gives for the page of an
  episode is decided by the network: either of them throws, or a URL comes back, the
  empty string when the page shows none.
\<close>

datatype Resolution = ResolutionFailed | ResolvedTo string

datatype Reply = NotFound string | Json "Download list"

text \<open>
  The variables of the loop: the registry, the array \<^verbatim>\<open>downloads\<close>, and the timers set so
  far, each a delay in milliseconds with the download that \<^verbatim>\<open>startDownload\<close> is called
  on when it fires.
\<close>

record Batch =
  batch_world :: World
  downloads :: "Download list"
  timers :: "(nat \<times> nat) list"

text \<open>
  The \<^verbatim>\<open>try\<close> block of the loop body: \<open>None\<close> when the \<^verbatim>\<open>catch\<close> block ran, which ends
  with \<^verbatim>\<open>continue\<close>; the episode as the rest of the body sees it otherwise.
\<close>

definition resolveInline ::
  "(string \<Rightarrow> bool) \<Rightarrow> (string \<Rightarrow> Resolution) \<Rightarrow> World \<Rightarrow> Episode
     \<Rightarrow> (Episode \<times> World) option" where
  "resolveInline urlParses resolve w episode =
     (if \<not> truthy (downloadUrl episode)
      then (case resolve (sourceUrl episode) of
              ResolutionFailed \<Rightarrow> None
            | ResolvedTo url \<Rightarrow>
                if url \<noteq> [] \<and> isValidVideoUrl urlParses url
                then Some (episode\<lparr>downloadUrl := Some url\<rparr>,
                           snd (updateEpisode w (episode_id episode)
                                  (\<lambda>e. e\<lparr>downloadUrl := Some url\<rparr>)))
                else Some (episode, w))
      else Some (episode, w))"

text \<open>
  One turn of the loop. \<open>joinPath\<close> stands for the expression
  \<^verbatim>\<open>path.join(downloadPath, `season-${season}`, `episode-${episodeNumber}.mp4`)\<close> of the
  platform's path module.
\<close>

definition seriesLoopBody ::
  "(string \<Rightarrow> bool) \<Rightarrow> (string \<Rightarrow> Resolution)
     \<Rightarrow> (string \<Rightarrow> nat option \<Rightarrow> nat option \<Rightarrow> string)
     \<Rightarrow> string option \<Rightarrow> nat \<Rightarrow> Batch \<Rightarrow> Episode \<Rightarrow> Batch" where
  "seriesLoopBody urlParses resolve joinPath downloadPath now b episode =
     (case resolveInline urlParses resolve (batch_world b) episode of
        None \<Rightarrow> b
      | Some (episode', w) \<Rightarrow>
          if truthy (downloadUrl episode')
          then (let (download, w') =
                      createDownload w
                        \<lparr>ins_episodeId = episode_id episode',
                         ins_status = Some ''queued'',
                         ins_progress = None,
                         ins_totalSize = None,
                         ins_downloadedSize = None,
                         ins_speed = None,
                         ins_filePath =
                           (case downloadPath of
                              None \<Rightarrow> None
                            | Some dir \<Rightarrow>
                                if dir \<noteq> []
                                then Some (joinPath dir (season episode')
                                                    (episodeNumber episode'))
                                else None),
                         ins_error = None,
                         ins_startedAt = None,
                         ins_completedAt = None\<rparr> now;
                    ds = downloads b @ [download]
                in \<lparr>batch_world = w', downloads = ds,
                    timers = timers b @ [(length ds * 500, download_id download)]\<rparr>)
          else b\<lparr>batch_world := w\<rparr>)"

text \<open>The series branch of the handler: the reply, the registry after it, the timers set.\<close>

definition downloadSeries ::
  "(string \<Rightarrow> bool) \<Rightarrow> (string \<Rightarrow> Resolution)
     \<Rightarrow> (string \<Rightarrow> nat option \<Rightarrow> nat option \<Rightarrow> string)
     \<Rightarrow> World \<Rightarrow> nat \<Rightarrow> string option \<Rightarrow> nat \<Rightarrow> Reply \<times> World \<times> (nat \<times> nat) list" where
  "downloadSeries urlParses resolve joinPath w seriesKey downloadPath now =
     (case getSeries w seriesKey of
        None \<Rightarrow> (NotFound ''Series not found'', w, [])
      | Some series \<Rightarrow>
          (let episodes = getEpisodesBySeriesId w (series_id series)
           in if episodes = [] then (NotFound ''No episodes found for this series'', w, [])
              else (let b = foldl (seriesLoopBody urlParses resolve joinPath downloadPath now)
                                  \<lparr>batch_world = w, downloads = [], timers = []\<rparr> episodes
                    in (Json (downloads b), batch_world b, timers b))))"

text \<open>
  An episode of the batch that has a media URL, or for which the resolution returns one
  that \<^verbatim>\<open>isValidVideoUrl\<close> accepts.
\<close>

definition hasOrObtainsUrl ::
  "(string \<Rightarrow> bool) \<Rightarrow> (string \<Rightarrow> Resolution) \<Rightarrow> Episode \<Rightarrow> bool" where
  "hasOrObtainsUrl urlParses resolve episode =
     (truthy (downloadUrl episode)
      \<or> (case resolve (sourceUrl episode) of
            ResolutionFailed \<Rightarrow> False
          | ResolvedTo url \<Rightarrow> url \<noteq> [] \<and> isValidVideoUrl urlParses url))"

section \<open>States of the engine\<close>

text \<open>
  An episode with its media URL, the path of its file, and the registry as
  \<^verbatim>\<open>startDownload\<close> leaves it when it calls \<^verbatim>\<open>downloadFile\<close> for download 1 of that
  episode: the record says \<^verbatim>\<open>downloading\<close> and holds the file path.
\<close>

definition exampleEpisode :: Episode where
  "exampleEpisode =
     \<lparr>episode_id = 1, seriesId = 1, episode_title = ''Foo Episode 1'',
      episodeNumber = Some 1, season = Some 1, duration = None,
      sourceUrl = ''https://site/watch/foo-episode-1'',
      downloadUrl = Some ''https://cdn.example.com/video/ep1.mp4'',
      episode_createdAt = Some 0\<rparr>"

definition examplePath :: string where
  "examplePath = ''downloads/foo/season-1/episode-1.mp4''"

definition startedWorld :: World where
  "startedWorld =
     \<lparr>seriesMap = Map.empty,
      episodesMap = [1 \<mapsto> exampleEpisode],
      downloadsMap = [1 \<mapsto>
        \<lparr>download_id = 1, episodeId = 1, status = ''downloading'',
         progress = Some (Num 0), totalSize = None, downloadedSize = Some 0,
         speed = None, filePath = Some examplePath, error = None,
         startedAt = Some 0, completedAt = None, createdAt = Some 0\<rparr>],
      episodeCurrentId = 2,
      downloadCurrentId = 2,
      activeDownloads = Map.empty,
      abortControllers = 0,
      aborted = {},
      streams = Map.empty,
      streamCount = 0,
      files = Map.empty,
      unwritable = {},
      directorySize = 4096\<rparr>"

text \<open>
  The server after its start: \<^verbatim>\<open>new MemStorage()\<close>, no handle, an empty disk. Then the
  registry with series 1 and its episode 1, then download 1 of that episode as the route
  creates it, then \<^verbatim>\<open>startDownload\<close> called on it at time 0, which leaves the fetch
  pending. \<open>joinSlash\<close> is \<^verbatim>\<open>path.join\<close> on two plain segments.
\<close>

definition initialWorld :: World where
  "initialWorld =
     \<lparr>seriesMap = Map.empty,
      episodesMap = Map.empty,
      downloadsMap = Map.empty,
      episodeCurrentId = 1,
      downloadCurrentId = 1,
      activeDownloads = Map.empty,
      abortControllers = 0,
      aborted = {},
      streams = Map.empty,
      streamCount = 0,
      files = Map.empty,
      unwritable = {},
      directorySize = 4096\<rparr>"

definition registryWorld :: World where
  "registryWorld =
     initialWorld
       \<lparr>seriesMap :=
          [1 \<mapsto> \<lparr>series_id = 1, series_title = ''Foo'', description = None,
                  totalEpisodes = Some 1, imageUrl = None,
                  series_sourceUrl = ''https://site/cartoon/foo'',
                  series_createdAt = Some 0\<rparr>],
        episodesMap := [1 \<mapsto> exampleEpisode],
        episodeCurrentId := 2\<rparr>"

definition queuedWorld :: World where
  "queuedWorld =
     snd (createDownload registryWorld
            \<lparr>ins_episodeId = 1, ins_status = Some ''queued'', ins_progress = None,
             ins_totalSize = None, ins_downloadedSize = None, ins_speed = None,
             ins_filePath = None, ins_error = None, ins_startedAt = None,
             ins_completedAt = None\<rparr> 0)"

definition joinSlash :: "string \<Rightarrow> string \<Rightarrow> string" where
  "joinSlash a b = a @ ''/'' @ b"

definition pendingStart :: "Pending option \<times> World" where
  "pendingStart = startDownload joinSlash ''downloads'' queuedWorld 1 0"

text \<open>Two answers of the server: 200 with 100 bytes announced, and 200 with no length.\<close>

definition okWithLength :: FetchOutcome where
  "okWithLength =
     Fetched \<lparr>response_status = 200, response_statusText = ''OK'', content_length = Some 100\<rparr>"


text \<open>
  A paused transfer with a partial file: the record of download 1 says \<^verbatim>\<open>paused\<close>, 50 of
  100 bytes are on disk, and the handle records position 50 under an aborted
  controller.
\<close>

definition pausedWorld :: World where
  "pausedWorld =
     \<lparr>seriesMap = Map.empty,
      episodesMap = [1 \<mapsto> exampleEpisode],
      downloadsMap = [1 \<mapsto>
        \<lparr>download_id = 1, episodeId = 1, status = ''paused'',
         progress = Some (Num 0), totalSize = Some 100, downloadedSize = Some 0,
         speed = None, filePath = Some examplePath, error = None,
         startedAt = Some 0, completedAt = None, createdAt = Some 0\<rparr>],
      episodeCurrentId = 2,
      downloadCurrentId = 2,
      activeDownloads =
        [1 \<mapsto> \<lparr>abortController = 0, resumePosition = 50, stream = None\<rparr>],
      abortControllers = 1,
      aborted = {0},
      streams = Map.empty,
      streamCount = 0,
      files = [examplePath \<mapsto> RegularFile 50],
      unwritable = {},
      directorySize = 4096\<rparr>"

section \<open>The states the server reaches\<close>




section \<open>A series of three episodes\<close>

text \<open>
  A registry to run the batch on: series 1 with three episodes. The first has its media
  URL; the second and the third have none, the page of the second cannot be fetched, and
  the page of the third resolves to a media URL.
\<close>

definition batchEpisode :: "nat \<Rightarrow> string \<Rightarrow> string option \<Rightarrow> Episode" where
  "batchEpisode n page url =
     \<lparr>episode_id = n, seriesId = 1, episode_title = ''Foo'',
      episodeNumber = Some n, season = Some 1, duration = None,
      sourceUrl = page, downloadUrl = url, episode_createdAt = Some 0\<rparr>"

definition batchWorld :: World where
  "batchWorld =
     \<lparr>seriesMap = [1 \<mapsto>
        \<lparr>series_id = 1, series_title = ''Foo'', description = None, totalEpisodes = Some 3,
         imageUrl = None, series_sourceUrl = ''https://site/cartoon/foo'',
         series_createdAt = Some 0\<rparr>],
      episodesMap =
        [1 \<mapsto> batchEpisode 1 ''https://site/watch/foo-episode-1''
                   (Some ''https://cdn.example.com/video/ep1.mp4''),
         2 \<mapsto> batchEpisode 2 ''https://site/watch/foo-episode-2'' None,
         3 \<mapsto> batchEpisode 3 ''https://site/watch/foo-episode-3'' None],
      downloadsMap = Map.empty,
      episodeCurrentId = 4,
      downloadCurrentId = 1,
      activeDownloads = Map.empty,
      abortControllers = 0,
      aborted = {},
      streams = Map.empty,
      streamCount = 0,
      files = Map.empty,
      unwritable = {},
      directorySize = 4096\<rparr>"

definition batchResolve :: "string \<Rightarrow> Resolution" where
  "batchResolve page =
     (if page = ''https://site/watch/foo-episode-3''
      then ResolvedTo ''https://cdn.example.com/video/ep3.mp4''
      else ResolutionFailed)"

text \<open>
  What the loop of the batch keeps true: every download of the array has its timer, the
  \<open>i\<close>-th timer is set to \<open>i\<close> times 500 milliseconds, and every download of the array is
  a queued record of the registry under its own key.
\<close>

definition batch_ok :: "Batch \<Rightarrow> bool" where
  "batch_ok b \<longleftrightarrow>
     map snd (timers b) = map download_id (downloads b)
     \<and> map fst (timers b) = map (\<lambda>i. i * 500) [1 ..< Suc (length (downloads b))]
     \<and> (\<forall>d \<in> set (downloads b).
           download_id d < downloadCurrentId (batch_world b)
           \<and> downloadsMap (batch_world b) (download_id d) = Some d
           \<and> status d = ''queued'')"

section \<open>Properties of \<^verbatim>\<open>sanitizePathName\<close>\<close>

lemma of_char_toLowerChar:
  "(of_char (toLowerChar c) :: nat) =
     (if (65 \<le> (of_char c :: nat) \<and> (of_char c :: nat) \<le> 90)
         \<or> (192 \<le> (of_char c :: nat) \<and> (of_char c :: nat) \<le> 222 \<and> (of_char c :: nat) \<noteq> 215)
      then of_char c + 32 else of_char c)"
  by (simp add: toLowerChar_def Let_def)

lemma toLowerChar_fixed:
  "\<not> ((65 \<le> (of_char c :: nat) \<and> (of_char c :: nat) \<le> 90)
       \<or> (192 \<le> (of_char c :: nat) \<and> (of_char c :: nat) \<le> 222 \<and> (of_char c :: nat) \<noteq> 215))
   \<Longrightarrow> toLowerChar c = c"
  unfolding toLowerChar_def Let_def by (erule if_not_P)

lemma toLowerChar_idem: "toLowerChar (toLowerChar c) = toLowerChar c"
proof (rule toLowerChar_fixed)
  show "\<not> ((65 \<le> (of_char (toLowerChar c) :: nat) \<and> (of_char (toLowerChar c) :: nat) \<le> 90)
         \<or> (192 \<le> (of_char (toLowerChar c) :: nat) \<and> (of_char (toLowerChar c) :: nat) \<le> 222
             \<and> (of_char (toLowerChar c) :: nat) \<noteq> 215))"
    unfolding of_char_toLowerChar by (cases "(of_char c :: nat) = 215") auto
qed

lemma toLowerChar_invalid: "isInvalidFileChar (toLowerChar c) \<Longrightarrow> isInvalidFileChar c"
  unfolding isInvalidFileChar_def Let_def of_char_toLowerChar
  by (cases "(65 \<le> (of_char c :: nat) \<and> (of_char c :: nat) \<le> 90)
         \<or> (192 \<le> (of_char c :: nat) \<and> (of_char c :: nat) \<le> 222 \<and> (of_char c :: nat) \<noteq> 215)")
     (simp, linarith, simp)

lemma toLowerChar_whitespace: "isWhitespace (toLowerChar c) \<Longrightarrow> isWhitespace c"
  unfolding isWhitespace_def Let_def of_char_toLowerChar
  by (cases "(65 \<le> (of_char c :: nat) \<and> (of_char c :: nat) \<le> 90)
         \<or> (192 \<le> (of_char c :: nat) \<and> (of_char c :: nat) \<le> 222 \<and> (of_char c :: nat) \<noteq> 215)")
     (simp, linarith, simp)

lemma hyphen_plain: "\<not> isInvalidFileChar CHR ''-''" "\<not> isWhitespace CHR ''-''"
  by (simp_all add: isInvalidFileChar_def isWhitespace_def)

lemma replaceInvalidFileChars_clean:
  "\<forall>c \<in> set (replaceInvalidFileChars s). \<not> isInvalidFileChar c"
  by (auto simp: replaceInvalidFileChars_def hyphen_plain)

lemma replaceInvalidFileChars_id:
  "\<forall>c \<in> set s. \<not> isInvalidFileChar c \<Longrightarrow> replaceInvalidFileChars s = s"
  by (induction s) (auto simp: replaceInvalidFileChars_def)

lemma replaceWhitespaceRuns_set:
  "set (replaceWhitespaceRuns s) \<subseteq> insert CHR ''-'' (set s)"
proof (induction s rule: replaceWhitespaceRuns.induct)
  case 1
  then show ?case by simp
next
  case (2 c cs)
  have "set (dropWhile isWhitespace cs) \<subseteq> set cs"
    by (simp add: set_dropWhileD subsetI)
  with 2 show ?case by (auto split: if_splits)
qed

lemma replaceWhitespaceRuns_clean:
  "\<forall>x \<in> set (replaceWhitespaceRuns s). \<not> isWhitespace x"
proof (induction s rule: replaceWhitespaceRuns.induct)
  case 1
  show ?case by simp
next
  case (2 c cs)
  show ?case
  proof (cases "isWhitespace c")
    case True
    with 2(1) have "\<forall>x \<in> set (replaceWhitespaceRuns (dropWhile isWhitespace cs)). \<not> isWhitespace x"
      by simp
    with True show ?thesis by (simp add: hyphen_plain)
  next
    case False
    with 2(2) have "\<forall>x \<in> set (replaceWhitespaceRuns cs). \<not> isWhitespace x"
      by simp
    with False show ?thesis by simp
  qed
qed

lemma replaceWhitespaceRuns_id:
  "\<forall>c \<in> set s. \<not> isWhitespace c \<Longrightarrow> replaceWhitespaceRuns s = s"
  by (induction s) auto

text \<open>A sanitized name holds no character of the class and no whitespace.\<close>

lemma sanitizePathName_clean:
  "\<forall>c \<in> set (sanitizePathName s). \<not> isInvalidFileChar c \<and> \<not> isWhitespace c"
proof
  fix c assume "c \<in> set (sanitizePathName s)"
  then obtain d where d: "d \<in> set (replaceWhitespaceRuns (replaceInvalidFileChars s))"
    and c: "c = toLowerChar d"
    by (auto simp: sanitizePathName_def toLowerCase_def)
  from d have ws: "\<not> isWhitespace d"
    using replaceWhitespaceRuns_clean by blast
  from d replaceWhitespaceRuns_set
  have "d = CHR ''-'' \<or> d \<in> set (replaceInvalidFileChars s)" by blast
  then have inv: "\<not> isInvalidFileChar d"
    using replaceInvalidFileChars_clean hyphen_plain by blast
  from ws inv c show "\<not> isInvalidFileChar c \<and> \<not> isWhitespace c"
    using toLowerChar_invalid toLowerChar_whitespace by blast
qed

lemma toLowerCase_idem: "toLowerCase (toLowerCase s) = toLowerCase s"
  by (simp add: toLowerCase_def toLowerChar_idem)

text \<open>
  Claim C4, as stated: the sanitized form of the title \<^verbatim>\<open>My Show: Part 1\<close> is
  \<^verbatim>\<open>my-show-part-1\<close>. It is not: the colon becomes a hyphen, and the space after it
  becomes a second one.
\<close>

theorem sanitizePathName_title_counterexample:
  "sanitizePathName ''My Show: Part 1'' \<noteq> ''my-show-part-1''"
  by code_simp

text \<open>
  Claim C4, amended: the sanitized form of the title \<^verbatim>\<open>My Show: Part 1\<close> is
  \<^verbatim>\<open>my-show--part-1\<close>, with two hyphens between \<^verbatim>\<open>show\<close> and \<^verbatim>\<open>part\<close>: one for
  the colon, one for the run of whitespace after it; the letters are lowercased.
\<close>

theorem sanitizePathName_title:
  "sanitizePathName ''My Show: Part 1'' = ''my-show--part-1''"
  by code_simp

text \<open>
  Claim C5: sanitizing is idempotent. For every string \<open>s\<close>, sanitizing the sanitized
  \<open>s\<close> gives the sanitized \<open>s\<close> back. (It is a function of its argument alone.)
\<close>

theorem sanitizePathName_idempotent:
  "sanitizePathName (sanitizePathName s) = sanitizePathName s"
proof -
  let ?t = "sanitizePathName s"
  have "replaceInvalidFileChars ?t = ?t"
    using sanitizePathName_clean by (intro replaceInvalidFileChars_id) blast
  moreover have "replaceWhitespaceRuns ?t = ?t"
    using sanitizePathName_clean by (intro replaceWhitespaceRuns_id) blast
  moreover have "toLowerCase ?t = ?t"
    by (simp add: sanitizePathName_def toLowerCase_idem)
  ultimately show ?thesis
    by (simp add: sanitizePathName_def)
qed

theorem sanitizePathName_idempotent_witness:
  "sanitizePathName (sanitizePathName ''A  b/C'') = sanitizePathName ''A  b/C''
   \<and> sanitizePathName ''A  b/C'' = ''a-b-c''"
proof -
  have "sanitizePathName ''A  b/C'' = ''a-b-c''" by code_simp
  with sanitizePathName_idempotent [of "''A  b/C''"] show ?thesis by simp
qed

section \<open>Properties of the resolver\<close>

text \<open>
  Claim C3: \<^verbatim>\<open>isValidVideoUrl\<close> accepts a URL exactly when all four checks pass: at
  least 10 characters, a prefix \<^verbatim>\<open>http://\<close> or \<^verbatim>\<open>https://\<close>, a video extension in the
  lowercased text or one of the query parameters \<^verbatim>\<open>file\<close>, \<^verbatim>\<open>source\<close>, \<^verbatim>\<open>video\<close>, and
  the platform's URL parser accepting the text. Whatever that parser does, the empty
  string, \<^verbatim>\<open>yeni\<close>, \<^verbatim>\<open>ftp://x.mp4\<close> and \<^verbatim>\<open>https://x.com/noext\<close> are rejected, and
  \<^verbatim>\<open>https://cdn.example.com/video/ep1.mp4\<close> passes the first three checks, so it is
  accepted as soon as the parser takes it.
\<close>

theorem isValidVideoUrl_conjunctive:
  "(isValidVideoUrl urlParses url \<longleftrightarrow>
      10 \<le> length url
      \<and> (startsWith url ''http://'' \<or> startsWith url ''https://'')
      \<and> (hasValidExtension url \<or> hasVideoParams url)
      \<and> urlParses url)
   \<and> \<not> isValidVideoUrl urlParses []
   \<and> \<not> isValidVideoUrl urlParses ''yeni''
   \<and> \<not> isValidVideoUrl urlParses ''ftp://x.mp4''
   \<and> \<not> isValidVideoUrl urlParses ''https://x.com/noext''
   \<and> (isValidVideoUrl urlParses ''https://cdn.example.com/video/ep1.mp4''
        \<longleftrightarrow> urlParses ''https://cdn.example.com/video/ep1.mp4'')"
proof -
  have general: "isValidVideoUrl urlParses url \<longleftrightarrow>
      10 \<le> length url
      \<and> (startsWith url ''http://'' \<or> startsWith url ''https://'')
      \<and> (hasValidExtension url \<or> hasVideoParams url)
      \<and> urlParses url"
    by (auto simp: isValidVideoUrl_def)
  have e1: "\<not> isValidVideoUrl urlParses []"
    by (simp add: isValidVideoUrl_def)
  have e2: "\<not> isValidVideoUrl urlParses ''yeni''"
    by (simp add: isValidVideoUrl_def)
  have "\<not> startsWith ''ftp://x.mp4'' ''http://''" "\<not> startsWith ''ftp://x.mp4'' ''https://''"
    by code_simp+
  then have e3: "\<not> isValidVideoUrl urlParses ''ftp://x.mp4''"
    by (simp add: isValidVideoUrl_def)
  have "\<not> hasValidExtension ''https://x.com/noext''" "\<not> hasVideoParams ''https://x.com/noext''"
    by code_simp+
  then have e4: "\<not> isValidVideoUrl urlParses ''https://x.com/noext''"
    by (simp add: isValidVideoUrl_def)
  have "startsWith ''https://cdn.example.com/video/ep1.mp4'' ''https://''"
    "hasValidExtension ''https://cdn.example.com/video/ep1.mp4''"
    by code_simp+
  then have e5: "isValidVideoUrl urlParses ''https://cdn.example.com/video/ep1.mp4''
        \<longleftrightarrow> urlParses ''https://cdn.example.com/video/ep1.mp4''"
    by (simp add: isValidVideoUrl_def)
  from general e1 e2 e3 e4 e5 show ?thesis by blast
qed

text \<open>
  Claim C6: the class of a URL is a function of its text alone. A URL with one of the
  markers \<^verbatim>\<open>/anime/\<close>, \<^verbatim>\<open>/category/\<close>, \<^verbatim>\<open>/series/\<close>, \<^verbatim>\<open>/cartoon/\<close> is a series; a URL
  with one of the markers \<^verbatim>\<open>/episode\<close>, \<^verbatim>\<open>/watch/\<close>, \<^verbatim>\<open>/video/\<close> and none of the first
  four is an episode; a URL with none of the last three is a series. Markers are looked
  for in the lowercased text. \<^verbatim>\<open>https://site/cartoon/foo\<close> is a series and
  \<^verbatim>\<open>https://site/watch/foo-episode-3\<close> is an episode.
\<close>

theorem determineUrlType_classifies:
  "(includes_str (toLowerCase a) ''/anime/'' \<or> includes_str (toLowerCase a) ''/category/''
      \<or> includes_str (toLowerCase a) ''/series/'' \<or> includes_str (toLowerCase a) ''/cartoon/''
      \<longrightarrow> determineUrlType a = (SeriesUrl, a))
   \<and> ((includes_str (toLowerCase b) ''/episode'' \<or> includes_str (toLowerCase b) ''/watch/''
         \<or> includes_str (toLowerCase b) ''/video/'')
       \<and> \<not> includes_str (toLowerCase b) ''/anime/''
       \<and> \<not> includes_str (toLowerCase b) ''/category/''
       \<and> \<not> includes_str (toLowerCase b) ''/series/''
       \<and> \<not> includes_str (toLowerCase b) ''/cartoon/''
      \<longrightarrow> determineUrlType b = (EpisodeUrl, b))
   \<and> (\<not> includes_str (toLowerCase c) ''/episode'' \<and> \<not> includes_str (toLowerCase c) ''/watch/''
       \<and> \<not> includes_str (toLowerCase c) ''/video/''
      \<longrightarrow> determineUrlType c = (SeriesUrl, c))
   \<and> determineUrlType ''https://site/cartoon/foo'' = (SeriesUrl, ''https://site/cartoon/foo'')
   \<and> determineUrlType ''https://site/watch/foo-episode-3''
       = (EpisodeUrl, ''https://site/watch/foo-episode-3'')"
proof -
  have "determineUrlType ''https://site/cartoon/foo'' = (SeriesUrl, ''https://site/cartoon/foo'')"
    by code_simp
  moreover have "determineUrlType ''https://site/watch/foo-episode-3''
       = (EpisodeUrl, ''https://site/watch/foo-episode-3'')"
    by code_simp
  moreover have "includes_str (toLowerCase a) ''/anime/'' \<or> includes_str (toLowerCase a) ''/category/''
      \<or> includes_str (toLowerCase a) ''/series/'' \<or> includes_str (toLowerCase a) ''/cartoon/''
      \<longrightarrow> determineUrlType a = (SeriesUrl, a)"
    by (auto simp: determineUrlType_def Let_def)
  moreover have "(includes_str (toLowerCase b) ''/episode'' \<or> includes_str (toLowerCase b) ''/watch/''
         \<or> includes_str (toLowerCase b) ''/video/'')
       \<and> \<not> includes_str (toLowerCase b) ''/anime/''
       \<and> \<not> includes_str (toLowerCase b) ''/category/''
       \<and> \<not> includes_str (toLowerCase b) ''/series/''
       \<and> \<not> includes_str (toLowerCase b) ''/cartoon/''
      \<longrightarrow> determineUrlType b = (EpisodeUrl, b)"
    by (auto simp: determineUrlType_def Let_def)
  moreover have "\<not> includes_str (toLowerCase c) ''/episode'' \<and> \<not> includes_str (toLowerCase c) ''/watch/''
       \<and> \<not> includes_str (toLowerCase c) ''/video/''
      \<longrightarrow> determineUrlType c = (SeriesUrl, c)"
    by (auto simp: determineUrlType_def Let_def)
  ultimately show ?thesis
    by blast
qed

theorem determineUrlType_classifies_witness:
  "includes_str (toLowerCase ''https://site/cartoon/foo'') ''/cartoon/''
   \<and> determineUrlType ''https://site/cartoon/foo'' = (SeriesUrl, ''https://site/cartoon/foo'')
   \<and> includes_str (toLowerCase ''https://site/watch/foo-episode-3'') ''/watch/''
   \<and> \<not> includes_str (toLowerCase ''https://site/watch/foo-episode-3'') ''/anime/''
   \<and> \<not> includes_str (toLowerCase ''https://site/watch/foo-episode-3'') ''/category/''
   \<and> \<not> includes_str (toLowerCase ''https://site/watch/foo-episode-3'') ''/series/''
   \<and> \<not> includes_str (toLowerCase ''https://site/watch/foo-episode-3'') ''/cartoon/''
   \<and> determineUrlType ''https://site/watch/foo-episode-3''
       = (EpisodeUrl, ''https://site/watch/foo-episode-3'')
   \<and> \<not> includes_str (toLowerCase ''https://site/Foo'') ''/episode''
   \<and> \<not> includes_str (toLowerCase ''https://site/Foo'') ''/watch/''
   \<and> \<not> includes_str (toLowerCase ''https://site/Foo'') ''/video/''
   \<and> determineUrlType ''https://site/Foo'' = (SeriesUrl, ''https://site/Foo'')"
proof -
  have h1: "includes_str (toLowerCase ''https://site/cartoon/foo'') ''/cartoon/''"
    by code_simp
  have h2: "includes_str (toLowerCase ''https://site/watch/foo-episode-3'') ''/watch/''"
    "\<not> includes_str (toLowerCase ''https://site/watch/foo-episode-3'') ''/anime/''"
    "\<not> includes_str (toLowerCase ''https://site/watch/foo-episode-3'') ''/category/''"
    "\<not> includes_str (toLowerCase ''https://site/watch/foo-episode-3'') ''/series/''"
    "\<not> includes_str (toLowerCase ''https://site/watch/foo-episode-3'') ''/cartoon/''"
    by code_simp+
  have h3: "\<not> includes_str (toLowerCase ''https://site/Foo'') ''/episode''"
    "\<not> includes_str (toLowerCase ''https://site/Foo'') ''/watch/''"
    "\<not> includes_str (toLowerCase ''https://site/Foo'') ''/video/''"
    by code_simp+
  from h1 h2 h3
    determineUrlType_classifies [of "''https://site/cartoon/foo''"
      "''https://site/watch/foo-episode-3''" "''https://site/Foo''"]
  show ?thesis by blast
qed

section \<open>Properties of the registry\<close>

text \<open>
  Claim C10: whatever the insert input holds, the record \<^verbatim>\<open>createDownload\<close> makes has
  status \<^verbatim>\<open>queued\<close>, progress 0, downloaded size 0, and total size, speed, error, start
  and completion time null. Its episode is the episode of the input and its file path
  the file path of the input (null when that is missing or empty); the record is stored
  under its key; and the status, progress, sizes, speed, error and times of the input
  change nothing in the result.
\<close>

theorem createDownload_defaults:
  "status (fst (createDownload w ins now)) = ''queued''
   \<and> progress (fst (createDownload w ins now)) = Some (Num 0)
   \<and> downloadedSize (fst (createDownload w ins now)) = Some 0
   \<and> totalSize (fst (createDownload w ins now)) = None
   \<and> speed (fst (createDownload w ins now)) = None
   \<and> error (fst (createDownload w ins now)) = None
   \<and> startedAt (fst (createDownload w ins now)) = None
   \<and> completedAt (fst (createDownload w ins now)) = None
   \<and> episodeId (fst (createDownload w ins now)) = ins_episodeId ins
   \<and> filePath (fst (createDownload w ins now))
       = (if truthy (ins_filePath ins) then ins_filePath ins else None)
   \<and> getDownload (snd (createDownload w ins now)) (download_id (fst (createDownload w ins now)))
       = Some (fst (createDownload w ins now))
   \<and> createDownload w
         (ins\<lparr>ins_status := st, ins_progress := pr, ins_totalSize := ts,
              ins_downloadedSize := ds, ins_speed := sp, ins_error := er,
              ins_startedAt := sa, ins_completedAt := ca\<rparr>) now
       = createDownload w ins now"
  by (simp add: createDownload_def getDownload_def Let_def)

theorem createDownload_defaults_witness:
  "status (fst (createDownload startedWorld
      \<lparr>ins_episodeId = 1, ins_status = Some ''completed'', ins_progress = Some (Num 100),
       ins_totalSize = Some 7, ins_downloadedSize = Some 7, ins_speed = Some 1,
       ins_filePath = Some ''x.mp4'', ins_error = Some ''boom'', ins_startedAt = Some 1,
       ins_completedAt = Some 2\<rparr> 3)) = ''queued''
   \<and> progress (fst (createDownload startedWorld
      \<lparr>ins_episodeId = 1, ins_status = Some ''completed'', ins_progress = Some (Num 100),
       ins_totalSize = Some 7, ins_downloadedSize = Some 7, ins_speed = Some 1,
       ins_filePath = Some ''x.mp4'', ins_error = Some ''boom'', ins_startedAt = Some 1,
       ins_completedAt = Some 2\<rparr> 3)) = Some (Num 0)"
  using createDownload_defaults [of startedWorld
      "\<lparr>ins_episodeId = 1, ins_status = Some ''completed'', ins_progress = Some (Num 100),
       ins_totalSize = Some 7, ins_downloadedSize = Some 7, ins_speed = Some 1,
       ins_filePath = Some ''x.mp4'', ins_error = Some ''boom'', ins_startedAt = Some 1,
       ins_completedAt = Some 2\<rparr>" 3]
  by blast

section \<open>Properties of the transfer engine\<close>

text \<open>
  \<^verbatim>\<open>startDownload\<close> on the queued download finds series, episode and URL, makes the two
  directories, stores the path \<open>examplePath\<close> with the status \<^verbatim>\<open>downloading\<close>, and
  leaves this fetch pending.
\<close>

lemma pendingStart_value:
  "fst pendingStart =
     Some \<lparr>pending_downloadId = 1,
           pending_download =
             \<lparr>download_id = 1, episodeId = 1, status = ''downloading'',
              progress = Some (Num 0), totalSize = None, downloadedSize = Some 0,
              speed = None, filePath = Some examplePath, error = None,
              startedAt = Some 0, completedAt = None, createdAt = Some 0\<rparr>,
           pending_filePath = examplePath,
           pending_abortController = 0,
           pending_resumePosition = 0,
           request_url = Some ''https://cdn.example.com/video/ep1.mp4'',
           request_range = None\<rparr>"
  by code_simp


lemma resumeDownload_never_ranges:
  "resumeDownload w k = (ok, Some p, w') \<Longrightarrow>
     request_range p = None \<and> pending_resumePosition p = 0"
  by (auto simp: resumeDownload_def downloadFile_fetch_def updateDownload_def getDownload_def
        Let_def split: option.splits if_splits prod.splits)

text \<open>
  Claim C1 says that resuming a paused transfer with a partial file issues the fetch with
  a \<^verbatim>\<open>Range\<close> header that starts at the size of the file on disk. The code does not: on
  the paused transfer with 50 of 100 bytes on disk, recorded as position 50 in the handle,
  \<^verbatim>\<open>resumeDownload\<close> returns true and the fetch it issues carries no \<^verbatim>\<open>Range\<close> header
  and starts at position 0. \<^verbatim>\<open>resumeDownload\<close> stores the status \<^verbatim>\<open>downloading\<close> before it
  calls \<^verbatim>\<open>downloadFile\<close>, which measures the file only when the status it reads is
  \<^verbatim>\<open>paused\<close>. Once the fetch is answered, the stream is made with flag \<^verbatim>\<open>'w'\<close> and the
  call of \<^verbatim>\<open>getReader\<close> throws, so the record says \<^verbatim>\<open>error\<close>; and when the stream opens
  its file, the 50 bytes are gone.
\<close>

theorem resumeDownload_restarts_from_zero:
  "files pausedWorld examplePath = Some (RegularFile 50)
   \<and> map_option status (getDownload pausedWorld 1) = Some ''paused''
   \<and> map_option resumePosition (activeDownloads pausedWorld 1) = Some 50
   \<and> (case resumeDownload pausedWorld 1 of
         (ok, None, w) \<Rightarrow> False
       | (ok, Some p, w) \<Rightarrow>
           ok \<and> request_range p = None \<and> pending_resumePosition p = 0
           \<and> map_option status (getDownload (downloadFile_response w p okWithLength) 1)
               = Some ''error''
           \<and> files (downloadFile_response w p okWithLength) examplePath
               = Some (RegularFile 50)
           \<and> (case streamOpen (downloadFile_response w p okWithLength) 0 of
                 None \<Rightarrow> False
               | Some w' \<Rightarrow> files w' examplePath = Some (RegularFile 0)))"
  by code_simp

lemma downloadFile_fetch_pending:
  assumes "downloadFile_fetch w k episode path = (Some p, w1)"
  shows "pending_downloadId p = k"
    and "pending_abortController p = abortControllers w"
    and "activeDownloads w1 k
           = Some \<lparr>abortController = abortControllers w,
                   resumePosition = pending_resumePosition p, stream = None\<rparr>"
    and "downloadsMap w1 = downloadsMap w"
    and "downloadsMap w k \<noteq> None"
  using assms
  by (auto simp: downloadFile_fetch_def getDownload_def Let_def split: option.splits)

lemma downloadFile_response_aborted:
  assumes "pending_abortController p \<in> aborted w" and "downloadsMap w (pending_downloadId p) = Some d"
  shows "activeDownloads (downloadFile_response w p outcome) (pending_downloadId p) = None"
    and "map_option status (getDownload (downloadFile_response w p outcome) (pending_downloadId p))
           = Some ''error''"
    and "map_option error (getDownload (downloadFile_response w p outcome) (pending_downloadId p))
           = Some (Some (errorText abortError))"
  using assms
  by (simp_all add: downloadFile_response_def downloadFile_catch_def updateDownload_def
        getDownload_def Let_def)

text \<open>
  What a pause does by itself, and what follows it. A pause that returns true found a
  handle, aborts its controller and leaves the handle as it was, so that a second pause
  with nothing in between returns true again. When the fetch of the transfer is pending,
  as \<^verbatim>\<open>downloadFile\<close> leaves it, the pause returns true, and whatever the server
  answers, the settling of the aborted fetch deletes the handle and stores \<^verbatim>\<open>error\<close>: a
  pause after that returns false.
\<close>

lemma pauseDownload_then_settle:
  "(fst (pauseDownload w k) \<longrightarrow>
      (\<exists>h. activeDownloads w k = Some h
           \<and> activeDownloads (snd (pauseDownload w k)) k = Some h
           \<and> abortController h \<in> aborted (snd (pauseDownload w k))
           \<and> fst (pauseDownload (snd (pauseDownload w k)) k)))
   \<and> (downloadFile_fetch v k episode path = (Some p, w1) \<longrightarrow>
        fst (pauseDownload w1 k)
        \<and> activeDownloads (downloadFile_response (snd (pauseDownload w1 k)) p outcome) k = None
        \<and> \<not> fst (pauseDownload (downloadFile_response (snd (pauseDownload w1 k)) p outcome) k)
        \<and> map_option status
             (getDownload (downloadFile_response (snd (pauseDownload w1 k)) p outcome) k)
            = Some ''error'')"
proof (intro conjI impI)
  assume "fst (pauseDownload w k)"
  then show "\<exists>h. activeDownloads w k = Some h
           \<and> activeDownloads (snd (pauseDownload w k)) k = Some h
           \<and> abortController h \<in> aborted (snd (pauseDownload w k))
           \<and> fst (pauseDownload (snd (pauseDownload w k)) k)"
    by (auto simp: pauseDownload_def Let_def updateDownload_def abort_def streamClose_def
          split: option.splits)
next
  assume f: "downloadFile_fetch v k episode path = (Some p, w1)"
  let ?w2 = "snd (pauseDownload w1 k)"
  note pend = downloadFile_fetch_pending [OF f]
  from pend(3) show first: "fst (pauseDownload w1 k)"
    by (simp add: pauseDownload_def Let_def)
  from pend(3) have ab: "pending_abortController p \<in> aborted ?w2"
    by (simp add: pauseDownload_def Let_def updateDownload_def abort_def pend(2)
          split: option.splits)
  from pend(4,5) obtain d where "downloadsMap w1 k = Some d" by auto
  with pend(3) obtain d' where d': "downloadsMap ?w2 (pending_downloadId p) = Some d'"
    by (auto simp: pauseDownload_def Let_def updateDownload_def abort_def pend(1))
  from downloadFile_response_aborted(1) [OF ab d', of outcome]
  show gone: "activeDownloads (downloadFile_response ?w2 p outcome) k = None"
    by (simp add: pend(1))
  then show "\<not> fst (pauseDownload (downloadFile_response ?w2 p outcome) k)"
    by (simp add: pauseDownload_def)
  from downloadFile_response_aborted(2) [OF ab d', of outcome]
  show "map_option status (getDownload (downloadFile_response ?w2 p outcome) k) = Some ''error''"
    by (simp add: pend(1))
qed

text \<open>
  Claim C9 says that after a pause that returned true the handle stays in
  \<^verbatim>\<open>activeDownloads\<close>, so that a pause that follows returns true as well.
  \<^verbatim>\<open>pauseDownload\<close> does leave it there, and the \<^verbatim>\<open>catch\<close> handler of the chain of reads
  registers it anew on an \<^verbatim>\<open>AbortError\<close>; but for a transfer whose fetch is pending the
  code does not keep it: the pause of the started download returns true, the fetch it
  aborted is rejected, the \<^verbatim>\<open>catch\<close> block of \<^verbatim>\<open>downloadFile\<close>, which has no case for
  an \<^verbatim>\<open>AbortError\<close>, deletes the handle, and the pause that follows returns false.
\<close>

theorem pauseDownload_second_false:
  "(case pendingStart of
      (None, w) \<Rightarrow> False
    | (Some p, w) \<Rightarrow>
        fst (pauseDownload w 1)
        \<and> activeDownloads (downloadFile_response (snd (pauseDownload w 1)) p okWithLength) 1
            = None
        \<and> \<not> fst (pauseDownload
                    (downloadFile_response (snd (pauseDownload w 1)) p okWithLength) 1))"
  by code_simp

lemma cancelDownload_pending_error:
  assumes f: "downloadFile_fetch v k episode path = (Some p, w1)"
  shows "map_option status
           (getDownload (downloadFile_response (snd (cancelDownload w1 k)) p outcome) k)
         = Some ''error''"
proof -
  let ?w2 = "snd (cancelDownload w1 k)"
  note pend = downloadFile_fetch_pending [OF f]
  from pend(4,5) obtain d where d: "downloadsMap w1 k = Some d" by auto
  from pend(3) have ab: "pending_abortController p \<in> aborted ?w2"
    by (auto simp: cancelDownload_def Let_def updateDownload_def abort_def unlinkSync_def
          getDownload_def pend(2) split: option.splits sum.splits FsEntry.splits)
  from pend(3) d have "\<exists>d'. downloadsMap ?w2 (pending_downloadId p) = Some d'"
    by (auto simp: cancelDownload_def Let_def updateDownload_def abort_def unlinkSync_def
          getDownload_def pend(1) split: option.splits sum.splits FsEntry.splits)
  then obtain d' where d': "downloadsMap ?w2 (pending_downloadId p) = Some d'" ..
  from downloadFile_response_aborted(2) [OF ab d', of outcome] show ?thesis
    by (simp add: pend(1))
qed

text \<open>
  Claim C2 says that after a cancel the stored status is \<^verbatim>\<open>cancelled\<close>. The code does not
  keep that for a transfer whose fetch is pending: \<^verbatim>\<open>cancelDownload\<close> on the started
  download returns true and stores \<^verbatim>\<open>cancelled\<close>, then the fetch it aborted is rejected and
  the \<^verbatim>\<open>catch\<close> block of \<^verbatim>\<open>downloadFile\<close> stores \<^verbatim>\<open>error\<close>, with the text of the
  \<^verbatim>\<open>AbortError\<close>, over it. The \<^verbatim>\<open>catch\<close> handler of the chain of reads takes an
  \<^verbatim>\<open>AbortError\<close> for a pause or a cancel and writes no status; this block has no such
  case.
\<close>

theorem cancelDownload_then_error:
  "(case pendingStart of
      (None, w) \<Rightarrow> False
    | (Some p, w) \<Rightarrow>
        (case cancelDownload w 1 of
           (Inl err, w1) \<Rightarrow> False
         | (Inr ok, w1) \<Rightarrow>
             ok
             \<and> map_option status (getDownload w1 1) = Some ''cancelled''
             \<and> map_option status (getDownload (downloadFile_response w1 p okWithLength) 1)
                 = Some ''error''
             \<and> map_option error (getDownload (downloadFile_response w1 p okWithLength) 1)
                 = Some (Some ''AbortError: The operation was aborted.'')))"
  by code_simp

text \<open>
  Two more ways in which a cancel falls short. On a path that is a directory
  \<^verbatim>\<open>unlinkSync\<close> throws, the call is rejected and the record is left as it was. And a
  stream made before the cancel opens its file after it: the cancel finds nothing to
  unlink, returns true, and the file is there afterwards.
\<close>

lemma cancelDownload_throws_on_directory:
  assumes "getDownload w k = Some d" and "filePath d = Some path" and "path \<noteq> []"
    and "files w path = Some (Directory n)"
  shows "fst (cancelDownload w k)
           = Inl (systemError ''EISDIR'' ''illegal operation on a directory'' ''unlink'' path)"
    and "getDownload (snd (cancelDownload w k)) k = Some d"
  using assms
  by (auto simp: cancelDownload_def Let_def abort_def streamClose_def unlinkSync_def
        getDownload_def existsSync_def split: option.splits)

lemma cancelDownload_file_appears:
  "(case pendingStart of
      (None, w) \<Rightarrow> False
    | (Some p, w) \<Rightarrow>
        (case cancelDownload (downloadFile_response w p okWithLength) 1 of
           (Inl err, w1) \<Rightarrow> False
         | (Inr ok, w1) \<Rightarrow>
             ok \<and> files w1 examplePath = None
             \<and> (case streamOpen w1 0 of
                   None \<Rightarrow> False
                 | Some w2 \<Rightarrow>
                     files w2 examplePath = Some (RegularFile 0)
                     \<and> map_option status (getDownload w2 1) = Some ''cancelled'')))"
  by code_simp






















section \<open>Properties of the batch download\<close>

lemma seriesLoopBody_downloads:
  "map episodeId (downloads (seriesLoopBody up rs jp dp now b e)) =
     map episodeId (downloads b) @ (if hasOrObtainsUrl up rs e then [episode_id e] else [])"
  by (auto simp: seriesLoopBody_def resolveInline_def hasOrObtainsUrl_def createDownload_def
        Let_def truthy_def split: Resolution.splits option.splits prod.splits)

lemma seriesLoopBody_ok:
  "batch_ok b \<Longrightarrow> batch_ok (seriesLoopBody up rs jp dp now b e)"
  by (auto simp: batch_ok_def seriesLoopBody_def resolveInline_def createDownload_def
        updateEpisode_def Let_def truthy_def
        split: Resolution.splits option.splits prod.splits if_splits)

lemma seriesLoop_downloads:
  "map episodeId (downloads (foldl (seriesLoopBody up rs jp dp now) b es)) =
     map episodeId (downloads b) @ map episode_id (filter (hasOrObtainsUrl up rs) es)"
proof (induction es arbitrary: b)
  case Nil
  show ?case by simp
next
  case (Cons e es)
  show ?case
    by (simp add: Cons.IH seriesLoopBody_downloads)
qed

lemma seriesLoop_ok:
  "batch_ok b \<Longrightarrow> batch_ok (foldl (seriesLoopBody up rs jp dp now) b es)"
  by (induction es arbitrary: b) (simp_all add: seriesLoopBody_ok)

text \<open>
  Claim C8: the batch download of a series that exists and has episodes always answers
  with the list of downloads it created, in the order of the episodes: one queued record,
  stored in the registry, for each episode that has a media URL or whose resolution
  returns a URL that \<^verbatim>\<open>isValidVideoUrl\<close> accepts, whatever the resolution of the other
  episodes does (it may throw). Each download has its timer for \<^verbatim>\<open>startDownload\<close>, the
  \<open>i\<close>-th set to \<open>i\<close> times 500 milliseconds.
\<close>

theorem downloadSeries_skips_failures:
  assumes "getSeries w k = Some sr"
    and "getEpisodesBySeriesId w (series_id sr) \<noteq> []"
  shows "\<exists>ds w' ts.
           downloadSeries up rs jp w k dp now = (Json ds, w', ts)
           \<and> map episodeId ds =
               map episode_id (filter (hasOrObtainsUrl up rs)
                                      (getEpisodesBySeriesId w (series_id sr)))
           \<and> map snd ts = map download_id ds
           \<and> map fst ts = map (\<lambda>i. i * 500) [1 ..< Suc (length ds)]
           \<and> (\<forall>d \<in> set ds. getDownload w' (download_id d) = Some d \<and> status d = ''queued'')"
proof -
  let ?start = "\<lparr>batch_world = w, downloads = [], timers = []\<rparr>"
  let ?final = "foldl (seriesLoopBody up rs jp dp now) ?start (getEpisodesBySeriesId w (series_id sr))"
  have run: "downloadSeries up rs jp w k dp now = (Json (downloads ?final), batch_world ?final, timers ?final)"
    using assms by (simp add: downloadSeries_def Let_def)
  have "batch_ok ?start" by (simp add: batch_ok_def)
  then have ok: "batch_ok ?final" by (rule seriesLoop_ok)
  have eps: "map episodeId (downloads ?final) =
      map episode_id (filter (hasOrObtainsUrl up rs) (getEpisodesBySeriesId w (series_id sr)))"
    using seriesLoop_downloads [of up rs jp dp now ?start] by simp
  from ok have t1: "map snd (timers ?final) = map download_id (downloads ?final)"
    and t2: "map fst (timers ?final) = map (\<lambda>i. i * 500) [1 ..< Suc (length (downloads ?final))]"
    and t3: "\<forall>d \<in> set (downloads ?final).
               downloadsMap (batch_world ?final) (download_id d) = Some d \<and> status d = ''queued''"
    unfolding batch_ok_def by blast+
  show ?thesis
    unfolding run getDownload_def using eps t1 t2 t3 by blast
qed

lemma batchWorld_series:
  "getSeries batchWorld 1 = Some \<lparr>series_id = 1, series_title = ''Foo'', description = None,
      totalEpisodes = Some 3, imageUrl = None, series_sourceUrl = ''https://site/cartoon/foo'',
      series_createdAt = Some 0\<rparr>"
  by (simp add: getSeries_def batchWorld_def)

lemma upt_one_four: "[Suc 0 ..< 4] = [Suc 0, 2, 3]"
  by code_simp

lemma batchWorld_episodes:
  "getEpisodesBySeriesId batchWorld 1 =
     [batchEpisode 1 ''https://site/watch/foo-episode-1''
        (Some ''https://cdn.example.com/video/ep1.mp4''),
      batchEpisode 2 ''https://site/watch/foo-episode-2'' None,
      batchEpisode 3 ''https://site/watch/foo-episode-3'' None]"
  by (simp add: getEpisodesBySeriesId_def batchWorld_def batchEpisode_def List.map_filter_def
        upt_one_four)

lemma batchWorld_obtains:
  "hasOrObtainsUrl (\<lambda>u. True) batchResolve
     (batchEpisode 1 ''https://site/watch/foo-episode-1''
        (Some ''https://cdn.example.com/video/ep1.mp4''))"
  "\<not> hasOrObtainsUrl (\<lambda>u. True) batchResolve
       (batchEpisode 2 ''https://site/watch/foo-episode-2'' None)"
  "hasOrObtainsUrl (\<lambda>u. True) batchResolve
     (batchEpisode 3 ''https://site/watch/foo-episode-3'' None)"
  by code_simp+

theorem downloadSeries_skips_failures_witness:
  "getSeries batchWorld 1 \<noteq> None
   \<and> getEpisodesBySeriesId batchWorld 1 \<noteq> []
   \<and> batchResolve ''https://site/watch/foo-episode-2'' = ResolutionFailed
   \<and> (\<exists>ds w' ts.
         downloadSeries (\<lambda>u. True) batchResolve (\<lambda>dir s e. dir) batchWorld 1 None 0
           = (Json ds, w', ts)
         \<and> map episodeId ds = [1, 3]
         \<and> map snd ts = map download_id ds
         \<and> map fst ts = map (\<lambda>i. i * 500) [1 ..< Suc (length ds)]
         \<and> (\<forall>d \<in> set ds. getDownload w' (download_id d) = Some d \<and> status d = ''queued''))"
proof -
  have ne: "getEpisodesBySeriesId batchWorld 1 \<noteq> []"
    using batchWorld_episodes by simp
  have failed: "batchResolve ''https://site/watch/foo-episode-2'' = ResolutionFailed"
    by (simp add: batchResolve_def)
  have ids: "map episode_id (filter (hasOrObtainsUrl (\<lambda>u. True) batchResolve)
                                    (getEpisodesBySeriesId batchWorld 1)) = [1, 3]"
    using batchWorld_episodes batchWorld_obtains by (simp add: batchEpisode_def)
  from downloadSeries_skips_failures [OF batchWorld_series, of "\<lambda>u. True" batchResolve
         "\<lambda>dir s e. dir" None 0] ne ids batchWorld_series failed
  show ?thesis by simp
qed

end
